theory Spec2Isabelle
  imports Complex_Main
begin

section \<open>Errors of the agent commands\<close>

text \<open>
  The command package builds its errors with \<open>github.com/pkg/errors\<close>. The model keeps
  an error as the term that built it: the format string and its arguments stay apart, so
  no number formatting is involved. \<open>External\<close> is an error handed back by a library
  the command calls (the bucket, the file system, the tarball reader).
\<close>

datatype arg = ArgString string | ArgInt int

datatype error =
    New string
  | Errorf string "arg list"
  | Wrapf error string "arg list"
  | WithStack error
  | External string

text \<open>\<open>errors.Wrapf\<close> and \<open>errors.WithStack\<close> return nil on a nil error.\<close>

definition errors_Wrapf :: "error option \<Rightarrow> string \<Rightarrow> arg list \<Rightarrow> error option" where
  "errors_Wrapf err fmt args = (case err of None \<Rightarrow> None | Some e \<Rightarrow> Some (Wrapf e fmt args))"

definition errors_WithStack :: "error option \<Rightarrow> error option" where
  "errors_WithStack err = (case err of None \<Rightarrow> None | Some e \<Rightarrow> Some (WithStack e))"

section \<open>The s3.get command (agent/command/s3\_get.go)\<close>

text \<open>
  The fields of \<open>s3get\<close> that are plain data. The \<open>bucket\<close> handle and the
  embedded \<open>base\<close> are opaque to every function modelled here and are left out.
\<close>

record s3get =
  AwsKey :: string
  AwsSecret :: string
  RemoteFile :: string
  Region :: string
  Bucket :: string
  BuildVariants :: "string list"
  LocalFile :: string
  ExtractTo :: string

text \<open>\<open>endpoints.UsEast1RegionID\<close> of the AWS SDK; the field's comment names the value.\<close>

definition UsEast1RegionID :: string where
  "UsEast1RegionID = ''us-east-1''"

text \<open>
  \<open>validateParams\<close> works on the receiver: it may set \<open>Region\<close> and returns an error or
  nil. The model returns the receiver as the call leaves it together with the error
  (\<open>None\<close> is nil). \<open>validateS3BucketName\<close> is declared in another file of the package
  and is a parameter here.
\<close>

definition validateParams :: "(string \<Rightarrow> error option) \<Rightarrow> s3get \<Rightarrow> s3get \<times> error option" where
  "validateParams validateS3BucketName c =
    (if AwsKey c = [] then (c, Some (New ''aws_key cannot be blank''))
     else if AwsSecret c = [] then (c, Some (New ''aws_secret cannot be blank''))
     else if RemoteFile c = [] then (c, Some (New ''remote_file cannot be blank''))
     else
       let c1 = (if Region c = [] then c\<lparr>Region := UsEast1RegionID\<rparr> else c) in
       (case validateS3BucketName (Bucket c1) of
          Some err \<Rightarrow>
            (c1, Some (Wrapf err ''%v is an invalid bucket name'' [ArgString (Bucket c1)]))
        | None \<Rightarrow>
            if LocalFile c1 \<noteq> [] \<and> ExtractTo c1 \<noteq> []
            then (c1, Some (New ''cannot specify both local_file and extract_to directory''))
            else if LocalFile c1 = [] \<and> ExtractTo c1 = []
            then (c1, Some (New ''must specify either local_file or extract_to''))
            else (c1, None)))"

text \<open>
  \<open>shouldRunForVariant\<close>: an empty filter runs for every build variant;
  \<open>utility.StringSliceContains\<close> is list membership.
\<close>

definition shouldRunForVariant :: "s3get \<Rightarrow> string \<Rightarrow> bool" where
  "shouldRunForVariant c buildVariantName =
    (if length (BuildVariants c) = 0 then True
     else List.member (BuildVariants c) buildVariantName)"

text \<open>
  One call of \<open>get\<close> talks to the file system and to the bucket. What they answer on
  that call is the record \<open>get_io\<close>: whether the local file exists, and the error (or
  nil) of \<open>os.RemoveAll\<close>, \<open>bucket.Download\<close>, \<open>bucket.Reader\<close> and
  \<open>ExtractTarball\<close>.
\<close>

record get_io =
  fileExists :: bool
  removeAll :: "error option"
  download :: "error option"
  reader :: "error option"
  extractTarball :: "error option"

definition get :: "s3get \<Rightarrow> get_io \<Rightarrow> error option" where
  "get c io =
    (if LocalFile c \<noteq> [] then
       (case (if fileExists io then removeAll io else None) of
          Some err \<Rightarrow> Some (Wrapf err ''error clearing local file %v'' [ArgString (LocalFile c)])
        | None \<Rightarrow>
            errors_Wrapf (download io) ''error downloading %s to %s''
              [ArgString (RemoteFile c), ArgString (LocalFile c)])
     else
       (case reader io of
          Some err \<Rightarrow> Some (WithStack err)
        | None \<Rightarrow>
            (case extractTarball io of
               Some err \<Rightarrow>
                 Some (Wrapf err ''problem extracting %s from archive'' [ArgString (RemoteFile c)])
             | None \<Rightarrow> None)))"

subsection \<open>The retry loop\<close>

text \<open>
  Each round of \<open>getWithRetry\<close> waits in a \<open>select\<close> on two channels: the context's
  \<open>Done\<close> channel, ready once the context is cancelled, and the timer's channel, ready
  once the timer has fired (the timer starts at 0 and is reset to the next backoff
  duration after a failed attempt). Go's \<open>select\<close> blocks until a case can proceed and,
  when more than one can, runs one of them chosen pseudo-randomly. \<open>ready\<close> is what the
  select finds when it commits: one channel only, or both together with the choice the
  runtime makes (\<open>True\<close>: the timer case).
\<close>

datatype ready = OnlyCtxDone | OnlyTimer | BothReady bool

datatype select_case = CaseCtxDone | CaseTimerC

definition go_select :: "ready \<Rightarrow> select_case" where
  "go_select r =
    (case r of
       OnlyCtxDone \<Rightarrow> CaseCtxDone
     | OnlyTimer \<Rightarrow> CaseTimerC
     | BothReady pickTimer \<Rightarrow> (if pickTimer then CaseTimerC else CaseCtxDone))"

text \<open>The context is cancelled exactly when its \<open>Done\<close> channel is ready.\<close>

definition ctx_cancelled :: "ready \<Rightarrow> bool" where
  "ctx_cancelled r =
    (case r of OnlyCtxDone \<Rightarrow> True | OnlyTimer \<Rightarrow> False | BothReady pickTimer \<Rightarrow> True)"

text \<open>
  What round \<open>i\<close> meets: the state of the channels at its select, and the answers of
  the file system and the bucket should \<open>get\<close> run in it.
\<close>

record attempt_env =
  chans :: ready
  answers :: get_io

text \<open>
  The effects of the loop, in order: the task log line of a round, a call of \<open>get\<close>,
  the execution log line of a failed attempt, and the reset of the timer. Creating the
  timer before the loop and stopping it on return happen on every run and are not
  recorded; the backoff durations only decide when the timer's channel becomes ready,
  which \<open>ready\<close> already says.
\<close>

datatype event = TaskInfof int | CallGet | ExecutionErrorf error | TimerReset

text \<open>
  The loop \<open>for i := 1; i <= maxS3OpAttempts; i++\<close>, from round \<open>i\<close> with the effects
  \<open>tr\<close> so far. \<open>maxS3OpAttempts\<close> is a constant declared in another file of the
  package and is a parameter here. The counter is an unbounded integer: it stays below
  the constant plus one.
\<close>

function getWithRetry_loop ::
  "int \<Rightarrow> s3get \<Rightarrow> (int \<Rightarrow> attempt_env) \<Rightarrow> int \<Rightarrow> event list \<Rightarrow> error option \<times> event list" where
  "getWithRetry_loop maxS3OpAttempts c sched i tr =
    (if i \<le> maxS3OpAttempts then
       (case go_select (chans (sched i)) of
          CaseCtxDone \<Rightarrow> (Some (New ''s3 get operation aborted''), tr @ [TaskInfof i])
        | CaseTimerC \<Rightarrow>
            (case errors_WithStack (get c (answers (sched i))) of
               None \<Rightarrow> (None, tr @ [TaskInfof i, CallGet])
             | Some err \<Rightarrow>
                 getWithRetry_loop maxS3OpAttempts c sched (i + 1)
                   (tr @ [TaskInfof i, CallGet, ExecutionErrorf err, TimerReset])))
     else (Some (Errorf ''S3 get failed after %d attempts'' [ArgInt maxS3OpAttempts]), tr))"
  by pat_completeness auto
termination
  by (relation "measure (\<lambda>(m, c, sched, i, tr). nat (m + 1 - i))") auto

declare getWithRetry_loop.simps [simp del]

definition getWithRetry ::
  "int \<Rightarrow> s3get \<Rightarrow> (int \<Rightarrow> attempt_env) \<Rightarrow> error option \<times> event list" where
  "getWithRetry maxS3OpAttempts c sched = getWithRetry_loop maxS3OpAttempts c sched 1 []"

text \<open>The number of calls of \<open>get\<close> among the effects.\<close>

definition get_calls :: "event list \<Rightarrow> nat" where
  "get_calls tr = length (filter (\<lambda>e. e = CallGet) tr)"

text \<open>
  Round \<open>j\<close> runs \<open>get\<close> and it fails; round \<open>j\<close> runs \<open>get\<close> and it succeeds.
\<close>

definition attempt_fails :: "s3get \<Rightarrow> (int \<Rightarrow> attempt_env) \<Rightarrow> int \<Rightarrow> bool" where
  "attempt_fails c sched j =
    (go_select (chans (sched j)) = CaseTimerC \<and> get c (answers (sched j)) \<noteq> None)"

definition attempt_succeeds :: "s3get \<Rightarrow> (int \<Rightarrow> attempt_env) \<Rightarrow> int \<Rightarrow> bool" where
  "attempt_succeeds c sched j =
    (go_select (chans (sched j)) = CaseTimerC \<and> get c (answers (sched j)) = None)"

section \<open>The price oracle's on-demand cache\<close>

text \<open>
  A cache entry is keyed by operating system, instance type and region. The price is a
  scalar that is stored and handed back and never computed with, so its type is left
  open.
\<close>

record odInfo =
  od_os :: string
  od_instance :: string
  od_region :: string

text \<open>
  Modelled from the spec: \<open>getEC2OnDemandCost\<close> of the price oracle is not among the
  source files, only its tests are. The spec's words: a cache hit returns the cached
  scalar, a cache miss fetches from the external pricing source and populates the cache.
  \<open>fetch\<close> is the external pricing source, which may fail. The result is the price or
  the error, the cache after the call, and the keys fetched from the source during the
  call. A fetch that fails leaves the cache as it was.
\<close>

definition getEC2OnDemandCost ::
  "(odInfo \<Rightarrow> error + 'p) \<Rightarrow> (odInfo \<rightharpoonup> 'p) \<Rightarrow> odInfo
    \<Rightarrow> (error + 'p) \<times> (odInfo \<rightharpoonup> 'p) \<times> odInfo list" where
  "getEC2OnDemandCost fetch ec2Prices key =
    (case ec2Prices key of
       Some price \<Rightarrow> (Inr price, ec2Prices, [])
     | None \<Rightarrow>
         (case fetch key of
            Inl err \<Rightarrow> (Inl err, ec2Prices, [key])
          | Inr price \<Rightarrow> (Inr price, ec2Prices(key \<mapsto> price), [key])))"

section \<open>Inputs of the examples\<close>

definition example_cmd :: s3get where
  "example_cmd =
    \<lparr>AwsKey = ''k'', AwsSecret = ''s'', RemoteFile = ''r'', Region = [], Bucket = ''b'',
     BuildVariants = [], LocalFile = ''f'', ExtractTo = []\<rparr>"

definition accept_bucket :: "string \<Rightarrow> error option" where
  "accept_bucket name = None"

definition io_success :: get_io where
  "io_success =
    \<lparr>fileExists = False, removeAll = None, download = None, reader = None,
     extractTarball = None\<rparr>"

definition io_download_fails :: get_io where
  "io_download_fails =
    \<lparr>fileExists = False, removeAll = None, download = Some (External ''context canceled''),
     reader = None, extractTarball = None\<rparr>"

text \<open>
  The context is already cancelled when the loop starts and the timer, set to 0, has
  fired: the first select picks the timer; from the second round on only the context's
  channel is ready.
\<close>

definition sched_cancelled_at_entry :: "int \<Rightarrow> attempt_env" where
  "sched_cancelled_at_entry i =
    (if i = 1 then \<lparr>chans = BothReady True, answers = io_download_fails\<rparr>
     else \<lparr>chans = OnlyCtxDone, answers = io_download_fails\<rparr>)"

text \<open>The context is never cancelled; the second attempt succeeds.\<close>

definition sched_second_ok :: "int \<Rightarrow> attempt_env" where
  "sched_second_ok i =
    (if i = 2 then \<lparr>chans = OnlyTimer, answers = io_success\<rparr>
     else \<lparr>chans = OnlyTimer, answers = io_download_fails\<rparr>)"

text \<open>The context is cancelled during the backoff wait that follows the first attempt.\<close>

definition sched_cancel_wait :: "int \<Rightarrow> attempt_env" where
  "sched_cancel_wait i =
    (if i = 1 then \<lparr>chans = OnlyTimer, answers = io_download_fails\<rparr>
     else \<lparr>chans = OnlyCtxDone, answers = io_download_fails\<rparr>)"

text \<open>The context is never cancelled and every attempt fails.\<close>

definition sched_all_fail :: "int \<Rightarrow> attempt_env" where
  "sched_all_fail i = \<lparr>chans = OnlyTimer, answers = io_download_fails\<rparr>"

definition linux_c3 :: odInfo where
  "linux_c3 = \<lparr>od_os = ''Linux'', od_instance = ''c3.4xlarge'',
     od_region = ''US East (N. Virginia)''\<rparr>"

definition price_source :: "odInfo \<Rightarrow> error + real" where
  "price_source key = (if key = linux_c3 then Inr 0.84 else Inl (External ''no such product''))"

definition no_source :: "odInfo \<Rightarrow> error + real" where
  "no_source key = Inl (External ''unreachable'')"

section \<open>Validation of the parameters\<close>

lemma validateParams_blank:
  "AwsKey c = [] \<or> AwsSecret c = [] \<or> RemoteFile c = []
   \<Longrightarrow> snd (validateParams v c) \<noteq> None"
  by (auto simp: validateParams_def)

lemma validateParams_both:
  "LocalFile c \<noteq> [] \<Longrightarrow> ExtractTo c \<noteq> [] \<Longrightarrow> snd (validateParams v c) \<noteq> None"
  by (auto simp: validateParams_def Let_def split: option.splits)

lemma validateParams_neither:
  "LocalFile c = [] \<Longrightarrow> ExtractTo c = [] \<Longrightarrow> snd (validateParams v c) \<noteq> None"
  by (auto simp: validateParams_def Let_def split: option.splits)

lemma validateParams_ok:
  assumes "validateParams v c = (c', None)"
  shows "c' = c\<lparr>Region := (if Region c = [] then UsEast1RegionID else Region c)\<rparr>"
    and "AwsKey c \<noteq> []" and "AwsSecret c \<noteq> []" and "RemoteFile c \<noteq> []"
    and "v (Bucket c) = None"
    and "(LocalFile c = []) \<noteq> (ExtractTo c = [])"
  using assms
  by (auto simp: validateParams_def Let_def split: option.splits if_splits)

text \<open>
  C9. \<open>validateParams\<close> returns an error whenever \<open>aws_key\<close>, \<open>aws_secret\<close> or
  \<open>remote_file\<close> is empty, whenever \<open>local_file\<close> and \<open>extract_to\<close> are both
  non-empty, and whenever both are empty. When it returns nil, the receiver differs from
  the one it was called on in \<open>Region\<close> at most, an empty region has become
  \<open>us-east-1\<close>, the region is not empty, and exactly one of \<open>local_file\<close> and
  \<open>extract_to\<close> is set. This holds whatever \<open>validateS3BucketName\<close> answers.
\<close>

theorem validateParams_rejects_and_defaults:
  "(AwsKey c = [] \<or> AwsSecret c = [] \<or> RemoteFile c = []
      \<or> (LocalFile c \<noteq> [] \<and> ExtractTo c \<noteq> [])
      \<or> (LocalFile c = [] \<and> ExtractTo c = [])
     \<longrightarrow> snd (validateParams validateS3BucketName c) \<noteq> None)
   \<and> (snd (validateParams validateS3BucketName c) = None \<longrightarrow>
        fst (validateParams validateS3BucketName c) =
          c\<lparr>Region := (if Region c = [] then ''us-east-1'' else Region c)\<rparr>
        \<and> Region (fst (validateParams validateS3BucketName c)) \<noteq> []
        \<and> ((LocalFile (fst (validateParams validateS3BucketName c)) = [])
             \<noteq> (ExtractTo (fst (validateParams validateS3BucketName c)) = [])))"
proof (intro conjI impI)
  assume "AwsKey c = [] \<or> AwsSecret c = [] \<or> RemoteFile c = []
      \<or> (LocalFile c \<noteq> [] \<and> ExtractTo c \<noteq> [])
      \<or> (LocalFile c = [] \<and> ExtractTo c = [])"
  then show "snd (validateParams validateS3BucketName c) \<noteq> None"
    using validateParams_blank [of c validateS3BucketName]
      validateParams_both [of c validateS3BucketName]
      validateParams_neither [of c validateS3BucketName]
    by blast
next
  assume ok: "snd (validateParams validateS3BucketName c) = None"
  obtain c' where run: "validateParams validateS3BucketName c = (c', None)"
    using ok by (cases "validateParams validateS3BucketName c") simp
  have c': "c' = c\<lparr>Region := (if Region c = [] then UsEast1RegionID else Region c)\<rparr>"
    by (rule validateParams_ok(1) [OF run])
  show "fst (validateParams validateS3BucketName c) =
      c\<lparr>Region := (if Region c = [] then ''us-east-1'' else Region c)\<rparr>"
    using c' by (simp add: run UsEast1RegionID_def)
  show "Region (fst (validateParams validateS3BucketName c)) \<noteq> []"
    using c' by (simp add: run UsEast1RegionID_def)
  show "(LocalFile (fst (validateParams validateS3BucketName c)) = [])
      \<noteq> (ExtractTo (fst (validateParams validateS3BucketName c)) = [])"
    using c' validateParams_ok(6) [OF run] by (simp add: run)
qed

text \<open>
  The theorem at three inputs, with a bucket check that accepts every name: the example
  command without its \<open>aws_key\<close> is refused, the example command with an
  \<open>extract_to\<close> next to its \<open>local_file\<close> is refused, and the example command itself
  (a \<open>local_file\<close> only, no region) is accepted with the region set to \<open>us-east-1\<close>.
\<close>

theorem validateParams_rejects_and_defaults_witness:
  "snd (validateParams accept_bucket (example_cmd\<lparr>AwsKey := []\<rparr>)) \<noteq> None
   \<and> snd (validateParams accept_bucket (example_cmd\<lparr>ExtractTo := ''d''\<rparr>)) \<noteq> None
   \<and> validateParams accept_bucket example_cmd =
       (\<lparr>AwsKey = ''k'', AwsSecret = ''s'', RemoteFile = ''r'', Region = ''us-east-1'',
         Bucket = ''b'', BuildVariants = [], LocalFile = ''f'', ExtractTo = []\<rparr>, None)"
proof -
  have ok: "snd (validateParams accept_bucket example_cmd) = None"
    by (simp add: validateParams_def example_cmd_def accept_bucket_def)
  have "snd (validateParams accept_bucket (example_cmd\<lparr>AwsKey := []\<rparr>)) \<noteq> None"
    using validateParams_rejects_and_defaults [of "example_cmd\<lparr>AwsKey := []\<rparr>" accept_bucket]
    by simp
  moreover have "snd (validateParams accept_bucket (example_cmd\<lparr>ExtractTo := ''d''\<rparr>)) \<noteq> None"
    using validateParams_rejects_and_defaults [of "example_cmd\<lparr>ExtractTo := ''d''\<rparr>" accept_bucket]
    by (simp add: example_cmd_def)
  moreover have "fst (validateParams accept_bucket example_cmd) =
      \<lparr>AwsKey = ''k'', AwsSecret = ''s'', RemoteFile = ''r'', Region = ''us-east-1'',
       Bucket = ''b'', BuildVariants = [], LocalFile = ''f'', ExtractTo = []\<rparr>"
    using validateParams_rejects_and_defaults [of example_cmd accept_bucket] ok
    by (simp add: example_cmd_def)
  ultimately show ?thesis
    using ok by (simp add: prod_eq_iff)
qed

section \<open>The retry loop\<close>

text \<open>One round of the loop, by what it meets.\<close>

lemma loop_exhausted:
  "\<not> i \<le> m \<Longrightarrow> getWithRetry_loop m c sched i tr =
     (Some (Errorf ''S3 get failed after %d attempts'' [ArgInt m]), tr)"
  by (subst getWithRetry_loop.simps) simp

lemma loop_aborted:
  "i \<le> m \<Longrightarrow> go_select (chans (sched i)) = CaseCtxDone \<Longrightarrow>
   getWithRetry_loop m c sched i tr =
     (Some (New ''s3 get operation aborted''), tr @ [TaskInfof i])"
  by (subst getWithRetry_loop.simps) simp

lemma loop_success:
  "i \<le> m \<Longrightarrow> attempt_succeeds c sched i \<Longrightarrow> getWithRetry_loop m c sched i tr =
     (None, tr @ [TaskInfof i, CallGet])"
  by (subst getWithRetry_loop.simps) (simp add: attempt_succeeds_def errors_WithStack_def)

lemma loop_retry:
  "i \<le> m \<Longrightarrow> attempt_fails c sched i \<Longrightarrow>
   \<exists>err. getWithRetry_loop m c sched i tr =
     getWithRetry_loop m c sched (i + 1)
       (tr @ [TaskInfof i, CallGet, ExecutionErrorf err, TimerReset])"
  by (subst getWithRetry_loop.simps) (auto simp: attempt_fails_def errors_WithStack_def)

lemma get_calls_append [simp]: "get_calls (xs @ ys) = get_calls xs + get_calls ys"
  by (simp add: get_calls_def)

lemma get_calls_simps [simp]:
  "get_calls [] = 0"
  "get_calls (CallGet # xs) = Suc (get_calls xs)"
  "get_calls (TaskInfof i # xs) = get_calls xs"
  "get_calls (ExecutionErrorf e # xs) = get_calls xs"
  "get_calls (TimerReset # xs) = get_calls xs"
  by (simp_all add: get_calls_def)

text \<open>From round \<open>i\<close> on, \<open>get\<close> is called once per round left at most.\<close>

lemma loop_get_calls_bound:
  "get_calls (snd (getWithRetry_loop m c sched i tr)) \<le> get_calls tr + nat (m + 1 - i)"
proof (induction m c sched i tr rule: getWithRetry_loop.induct)
  case (1 m c sched i tr)
  show ?case
  proof (cases "i \<le> m")
    case False
    then show ?thesis by (simp add: loop_exhausted)
  next
    case le: True
    show ?thesis
    proof (cases "go_select (chans (sched i))")
      case CaseCtxDone
      with le show ?thesis by (simp add: loop_aborted)
    next
      case CaseTimerC
      show ?thesis
      proof (cases "errors_WithStack (get c (answers (sched i)))")
        case None
        then have "attempt_succeeds c sched i"
          by (simp add: attempt_succeeds_def CaseTimerC errors_WithStack_def split: option.splits)
        with le show ?thesis by (simp add: loop_success)
      next
        case (Some err)
        have "getWithRetry_loop m c sched i tr =
            getWithRetry_loop m c sched (i + 1)
              (tr @ [TaskInfof i, CallGet, ExecutionErrorf err, TimerReset])"
          using le CaseTimerC Some by (subst getWithRetry_loop.simps) simp
        moreover have "get_calls (snd (getWithRetry_loop m c sched (i + 1)
              (tr @ [TaskInfof i, CallGet, ExecutionErrorf err, TimerReset])))
            \<le> get_calls (tr @ [TaskInfof i, CallGet, ExecutionErrorf err, TimerReset])
              + nat (m + 1 - (i + 1))"
          using "1.IH" [OF le CaseTimerC Some] .
        ultimately show ?thesis using le by simp
      qed
    qed
  qed
qed

text \<open>A nil result comes straight after a call of \<open>get\<close>: nothing follows the success.\<close>

lemma loop_nil_ends_with_get:
  "fst (getWithRetry_loop m c sched i tr) = None \<Longrightarrow>
   \<exists>tr'. snd (getWithRetry_loop m c sched i tr) = tr' @ [CallGet]"
proof (induction m c sched i tr rule: getWithRetry_loop.induct)
  case (1 m c sched i tr)
  show ?case
  proof (cases "i \<le> m")
    case False
    with "1.prems" show ?thesis by (simp add: loop_exhausted)
  next
    case le: True
    show ?thesis
    proof (cases "go_select (chans (sched i))")
      case CaseCtxDone
      with le "1.prems" show ?thesis by (simp add: loop_aborted)
    next
      case CaseTimerC
      show ?thesis
      proof (cases "errors_WithStack (get c (answers (sched i)))")
        case None
        then have "attempt_succeeds c sched i"
          by (simp add: attempt_succeeds_def CaseTimerC errors_WithStack_def split: option.splits)
        with le have "snd (getWithRetry_loop m c sched i tr) = (tr @ [TaskInfof i]) @ [CallGet]"
          by (simp add: loop_success)
        then show ?thesis by blast
      next
        case (Some err)
        have eq: "getWithRetry_loop m c sched i tr =
            getWithRetry_loop m c sched (i + 1)
              (tr @ [TaskInfof i, CallGet, ExecutionErrorf err, TimerReset])"
          using le CaseTimerC Some by (subst getWithRetry_loop.simps) simp
        show ?thesis
          using "1.IH" [OF le CaseTimerC Some] "1.prems" unfolding eq by simp
      qed
    qed
  qed
qed

text \<open>
  When every round from \<open>i\<close> up to \<open>k\<close> (excluded) runs \<open>get\<close> and fails, the loop
  reaches round \<open>k\<close> with \<open>k - i\<close> more calls of \<open>get\<close> behind it.
\<close>

lemma loop_skip_failures:
  assumes "i \<le> k" and "k \<le> m + 1" and "\<forall>j. i \<le> j \<and> j < k \<longrightarrow> attempt_fails c sched j"
  shows "\<exists>tr'. getWithRetry_loop m c sched i tr = getWithRetry_loop m c sched k tr'
           \<and> get_calls tr' = get_calls tr + nat (k - i)"
  using assms
proof (induction k rule: int_ge_induct)
  case base
  then show ?case by auto
next
  case (step k)
  then obtain tr' where tr': "getWithRetry_loop m c sched i tr = getWithRetry_loop m c sched k tr'"
      "get_calls tr' = get_calls tr + nat (k - i)"
    by auto
  have "k \<le> m" "attempt_fails c sched k" using step by auto
  from loop_retry [OF this, of tr'] obtain err where
    "getWithRetry_loop m c sched k tr' =
     getWithRetry_loop m c sched (k + 1)
       (tr' @ [TaskInfof k, CallGet, ExecutionErrorf err, TimerReset])"
    by blast
  with tr' step.hyps show ?case
    by (intro exI [of _ "tr' @ [TaskInfof k, CallGet, ExecutionErrorf err, TimerReset]"])
      (simp add: nat_add_distrib)
qed

lemma go_select_CtxDone_iff:
  "go_select r = CaseCtxDone \<longleftrightarrow> ctx_cancelled r \<and> r \<noteq> BothReady True"
  by (cases r) (auto simp: go_select_def ctx_cancelled_def)

text \<open>
  C10, as the claim states it, fails at one point: a context cancelled before an attempt
  does not always end the call at once. With the example command and three attempts
  allowed, let the context be cancelled before the call and the timer (set to 0) have
  fired when the first select runs, and let the runtime pick the timer case. Then
  \<open>get\<close> runs once, under the cancelled context, and the call returns the abort error
  only at the second round.
\<close>

theorem getWithRetry_cancelled_counterexample:
  "ctx_cancelled (chans (sched_cancelled_at_entry 1))
   \<and> getWithRetry 3 example_cmd sched_cancelled_at_entry =
       (Some (New ''s3 get operation aborted''),
        [TaskInfof 1, CallGet,
         ExecutionErrorf (WithStack (Wrapf (External ''context canceled'')
           ''error downloading %s to %s'' [ArgString ''r'', ArgString ''f''])),
         TimerReset, TaskInfof 2])
   \<and> get_calls (snd (getWithRetry 3 example_cmd sched_cancelled_at_entry)) = 1"
  by (simp add: getWithRetry_def getWithRetry_loop.simps go_select_def get_def example_cmd_def
      io_download_fails_def errors_WithStack_def errors_Wrapf_def sched_cancelled_at_entry_def
      ctx_cancelled_def)

text \<open>
  C10, amended. \<open>getWithRetry\<close> calls \<open>get\<close> at most \<open>maxS3OpAttempts\<close> times (never,
  when the constant is not positive). A nil result is returned straight after the call of
  \<open>get\<close> that succeeded. Let round \<open>k\<close>, within the bound, be the first that is not a
  failed attempt. If it is a successful attempt, the call returns nil after \<open>k\<close> calls
  of \<open>get\<close>. If its select finds the context cancelled, other than with the timer
  ready too and picked by the runtime, the call returns the abort error after \<open>k - 1\<close>
  calls of \<open>get\<close>: round \<open>k\<close> makes no attempt. If all \<open>maxS3OpAttempts\<close> rounds are
  failed attempts, the call returns the failure error after that many calls of \<open>get\<close>.
\<close>

theorem getWithRetry_attempts:
  "get_calls (snd (getWithRetry m c sched)) \<le> nat m
   \<and> (fst (getWithRetry m c sched) = None \<longrightarrow>
        (\<exists>tr. snd (getWithRetry m c sched) = tr @ [CallGet]))
   \<and> (\<forall>k. 1 \<le> k \<and> k \<le> m \<and> (\<forall>j. 1 \<le> j \<and> j < k \<longrightarrow> attempt_fails c sched j) \<longrightarrow>
        (attempt_succeeds c sched k \<longrightarrow>
           fst (getWithRetry m c sched) = None
           \<and> get_calls (snd (getWithRetry m c sched)) = nat k)
        \<and> (ctx_cancelled (chans (sched k)) \<and> chans (sched k) \<noteq> BothReady True \<longrightarrow>
           fst (getWithRetry m c sched) = Some (New ''s3 get operation aborted'')
           \<and> get_calls (snd (getWithRetry m c sched)) = nat (k - 1)))
   \<and> ((\<forall>j. 1 \<le> j \<and> j \<le> m \<longrightarrow> attempt_fails c sched j) \<longrightarrow>
        fst (getWithRetry m c sched) =
          Some (Errorf ''S3 get failed after %d attempts'' [ArgInt m])
        \<and> get_calls (snd (getWithRetry m c sched)) = nat m)"
proof (intro conjI allI impI)
  show "get_calls (snd (getWithRetry m c sched)) \<le> nat m"
    using loop_get_calls_bound [of m c sched 1 "[]"] by (simp add: getWithRetry_def)
next
  assume "fst (getWithRetry m c sched) = None"
  then show "\<exists>tr. snd (getWithRetry m c sched) = tr @ [CallGet]"
    unfolding getWithRetry_def by (rule loop_nil_ends_with_get)
next
  fix k
  assume k: "1 \<le> k \<and> k \<le> m \<and> (\<forall>j. 1 \<le> j \<and> j < k \<longrightarrow> attempt_fails c sched j)"
  then obtain tr' where reach: "getWithRetry m c sched = getWithRetry_loop m c sched k tr'"
      and calls: "get_calls tr' = nat (k - 1)"
    using loop_skip_failures [of 1 k m c sched "[]"] by (auto simp: getWithRetry_def)
  {
    assume "attempt_succeeds c sched k"
    with k have "getWithRetry m c sched = (None, tr' @ [TaskInfof k, CallGet])"
      by (simp add: reach loop_success)
    with k calls show "fst (getWithRetry m c sched) = None"
      and "get_calls (snd (getWithRetry m c sched)) = nat k"
      by (simp_all add: nat_diff_distrib)
  }
  {
    assume "ctx_cancelled (chans (sched k)) \<and> chans (sched k) \<noteq> BothReady True"
    then have "go_select (chans (sched k)) = CaseCtxDone"
      by (simp add: go_select_CtxDone_iff)
    with k have "getWithRetry m c sched =
        (Some (New ''s3 get operation aborted''), tr' @ [TaskInfof k])"
      by (simp add: reach loop_aborted)
    with calls show "fst (getWithRetry m c sched) = Some (New ''s3 get operation aborted'')"
      and "get_calls (snd (getWithRetry m c sched)) = nat (k - 1)"
      by simp_all
  }
next
  assume all: "\<forall>j. 1 \<le> j \<and> j \<le> m \<longrightarrow> attempt_fails c sched j"
  have "\<exists>tr'. getWithRetry m c sched = getWithRetry_loop m c sched (m + 1) tr'
      \<and> get_calls tr' = nat m"
  proof (cases "0 \<le> m")
    case True
    then show ?thesis
      using loop_skip_failures [of 1 "m + 1" m c sched "[]"] all by (auto simp: getWithRetry_def)
  next
    case False
    then have "getWithRetry m c sched = getWithRetry_loop m c sched (m + 1) []"
      by (simp add: getWithRetry_def loop_exhausted)
    with False show ?thesis by auto
  qed
  then obtain tr' where "getWithRetry m c sched =
      (Some (Errorf ''S3 get failed after %d attempts'' [ArgInt m]), tr')"
    and "get_calls tr' = nat m"
    by (auto simp: loop_exhausted)
  then show "fst (getWithRetry m c sched) =
      Some (Errorf ''S3 get failed after %d attempts'' [ArgInt m])"
    and "get_calls (snd (getWithRetry m c sched)) = nat m"
    by simp_all
qed

text \<open>
  The theorem with three attempts allowed, on three runs of the example command: the
  second attempt succeeds (nil, two calls); the context is cancelled while the loop waits
  after the first failed attempt (abort error, one call); every attempt fails (failure
  error, three calls).
\<close>

theorem getWithRetry_attempts_witness:
  "fst (getWithRetry 3 example_cmd sched_second_ok) = None
   \<and> get_calls (snd (getWithRetry 3 example_cmd sched_second_ok)) = 2
   \<and> fst (getWithRetry 3 example_cmd sched_cancel_wait) = Some (New ''s3 get operation aborted'')
   \<and> get_calls (snd (getWithRetry 3 example_cmd sched_cancel_wait)) = 1
   \<and> fst (getWithRetry 3 example_cmd sched_all_fail) =
       Some (Errorf ''S3 get failed after %d attempts'' [ArgInt 3])
   \<and> get_calls (snd (getWithRetry 3 example_cmd sched_all_fail)) = 3"
proof -
  have bad: "get example_cmd io_download_fails \<noteq> None"
    and ok: "get example_cmd io_success = None"
    by (simp_all add: get_def example_cmd_def io_download_fails_def io_success_def
        errors_Wrapf_def)
  have first_fails: "\<forall>j. 1 \<le> j \<and> j < 2 \<longrightarrow> attempt_fails example_cmd sched j"
    if "attempt_fails example_cmd sched 1" for sched
  proof (intro allI impI)
    fix j :: int
    assume "1 \<le> j \<and> j < 2"
    then have "j = 1" by simp
    with that show "attempt_fails example_cmd sched j" by simp
  qed
  have a: "attempt_fails example_cmd sched_second_ok 1"
    "attempt_succeeds example_cmd sched_second_ok 2"
    by (simp_all add: attempt_fails_def attempt_succeeds_def sched_second_ok_def
        go_select_def bad ok)
  have b: "attempt_fails example_cmd sched_cancel_wait 1"
    "ctx_cancelled (chans (sched_cancel_wait 2)) \<and> chans (sched_cancel_wait 2) \<noteq> BothReady True"
    by (simp_all add: attempt_fails_def sched_cancel_wait_def go_select_def ctx_cancelled_def bad)
  have c: "\<forall>j. 1 \<le> j \<and> j \<le> 3 \<longrightarrow> attempt_fails example_cmd sched_all_fail j"
    by (simp add: attempt_fails_def sched_all_fail_def go_select_def bad)
  note at_second = conjunct2 [THEN conjunct2, THEN conjunct1, THEN spec [of _ 2]]
  have "fst (getWithRetry 3 example_cmd sched_second_ok) = None
      \<and> get_calls (snd (getWithRetry 3 example_cmd sched_second_ok)) = 2"
    using getWithRetry_attempts [of 3 example_cmd sched_second_ok, THEN at_second]
      first_fails [OF a(1)] a(2) by simp
  moreover have "fst (getWithRetry 3 example_cmd sched_cancel_wait) =
        Some (New ''s3 get operation aborted'')
      \<and> get_calls (snd (getWithRetry 3 example_cmd sched_cancel_wait)) = 1"
    using getWithRetry_attempts [of 3 example_cmd sched_cancel_wait, THEN at_second]
      first_fails [OF b(1)] b(2) by simp
  moreover have "fst (getWithRetry 3 example_cmd sched_all_fail) =
        Some (Errorf ''S3 get failed after %d attempts'' [ArgInt 3])
      \<and> get_calls (snd (getWithRetry 3 example_cmd sched_all_fail)) = 3"
    using getWithRetry_attempts [of 3 example_cmd sched_all_fail] c by simp
  ultimately show ?thesis by simp
qed

section \<open>The on-demand price cache\<close>

text \<open>
  C4. For every key: when the key is in the cache, \<open>getEC2OnDemandCost\<close> returns the
  cached price, fetches nothing and leaves the cache as it is; when the key is not in the
  cache and the source answers with a price, the call fetches that key once, returns the
  price and stores it under the key, and the next call for the key returns the stored
  price without a fetch, whatever the source would answer then.
\<close>

theorem getEC2OnDemandCost_hit_and_miss:
  "(ec2Prices key = Some price \<longrightarrow>
      getEC2OnDemandCost fetch ec2Prices key = (Inr price, ec2Prices, []))
   \<and> (ec2Prices key = None \<and> fetch key = Inr price \<longrightarrow>
      getEC2OnDemandCost fetch ec2Prices key = (Inr price, ec2Prices(key \<mapsto> price), [key])
      \<and> getEC2OnDemandCost fetch' (fst (snd (getEC2OnDemandCost fetch ec2Prices key))) key =
          (Inr price, ec2Prices(key \<mapsto> price), []))"
proof (intro conjI impI)
  assume "ec2Prices key = Some price"
  then show "getEC2OnDemandCost fetch ec2Prices key = (Inr price, ec2Prices, [])"
    by (simp add: getEC2OnDemandCost_def)
next
  assume miss: "ec2Prices key = None \<and> fetch key = Inr price"
  then show first: "getEC2OnDemandCost fetch ec2Prices key =
      (Inr price, ec2Prices(key \<mapsto> price), [key])"
    by (simp add: getEC2OnDemandCost_def)
  show "getEC2OnDemandCost fetch' (fst (snd (getEC2OnDemandCost fetch ec2Prices key))) key =
      (Inr price, ec2Prices(key \<mapsto> price), [])"
    unfolding first by (simp add: getEC2OnDemandCost_def)
qed

text \<open>
  The theorem on the key of the cached and uncached tests: with 0.1 cached, 0.1 comes
  back although the source would say 0.84; with an empty cache, 0.84 is fetched and
  stored, and comes back again when the source is out of reach.
\<close>

theorem getEC2OnDemandCost_hit_and_miss_witness:
  "getEC2OnDemandCost price_source [linux_c3 \<mapsto> 0.1] linux_c3 =
      (Inr 0.1, [linux_c3 \<mapsto> 0.1], [])
   \<and> getEC2OnDemandCost price_source Map.empty linux_c3 =
      (Inr 0.84, [linux_c3 \<mapsto> 0.84], [linux_c3])
   \<and> getEC2OnDemandCost no_source
        (fst (snd (getEC2OnDemandCost price_source Map.empty linux_c3))) linux_c3 =
      (Inr 0.84, [linux_c3 \<mapsto> 0.84], [])"
proof -
  have hit: "[linux_c3 \<mapsto> 0.1 :: real] linux_c3 = Some 0.1"
    by simp
  have miss: "(Map.empty :: odInfo \<rightharpoonup> real) linux_c3 = None \<and> price_source linux_c3 = Inr 0.84"
    by (simp add: price_source_def)
  note cached = getEC2OnDemandCost_hit_and_miss
    [of "[linux_c3 \<mapsto> 0.1]" linux_c3 "0.1" price_source no_source, THEN conjunct1]
  note uncached = getEC2OnDemandCost_hit_and_miss
    [of Map.empty linux_c3 "0.84" price_source no_source, THEN conjunct2]
  show ?thesis
    using mp [OF cached hit] mp [OF uncached miss] by blast
qed

end
